theory Spec2Isabelle
  imports Main
begin

section \<open>The school database layer (class Database of pyqt.py and tkinter.py)\<close>

text \<open>
  The two front-ends carry the same \<open>Database\<close> class; the statements it sends to SQLite
  are the same in both files, so one model serves both. Outcomes follow pyqt.py, whose
  \<open>Database\<close> shows the dialogs itself.

  What the model takes from SQLite and from Python's \<open>sqlite3\<close> module:
  \<^item> a table is the list of its rows in rowid order, which is the order \<open>SELECT *\<close> returns;
  \<^item> \<open>INTEGER PRIMARY KEY AUTOINCREMENT\<close> gives a new row the id
    \<open>max (sqlite_sequence value) (largest id in the table) + 1\<close> and stores it in
    \<open>sqlite_sequence\<close>;
  \<^item> \<open>PRIMARY KEY (student_id, course_id)\<close> makes an \<open>INSERT\<close> of a present pair raise
    \<open>IntegrityError\<close> and write nothing, when both ids of the pair are not \<open>NULL\<close>; the
    two columns are not declared \<open>NOT NULL\<close>, and SQLite takes a row with a \<open>NULL\<close> in
    the key to differ from every row, so such a row is accepted again and again;
  \<^item> the \<open>FOREIGN KEY\<close> clauses are not enforced: \<open>sqlite3.connect\<close> leaves foreign-key
    enforcement off and the code never issues \<open>PRAGMA foreign_keys = ON\<close>;
  \<^item> Python integers are unbounded and SQLite's \<open>INTEGER\<close> is signed 64-bit: \<open>execute\<close>
    raises \<open>OverflowError\<close> for an integer parameter outside that range, before the
    statement runs. The three \<open>INSERT\<close>s of \<open>add_student\<close>, \<open>add_instructor\<close> and
    \<open>register_student_course\<close> carry this check; the lookups, updates and deletes are
    modelled for parameters inside the range, and so is the id counter (it cannot reach
    the end of the range in fewer than \<open>2^63\<close> insertions);
  \<^item> the two ids of \<open>register_student_course\<close> may be \<open>None\<close>, which is what
    \<open>currentData()\<close> of an empty dropdown gives in pyqt.py; the other parameters are the
    documented \<open>int\<close> and \<open>str\<close>;
  \<^item> a string is a list of 8-bit characters; code points above 255 are not represented,
    and none of them belongs to a character class of the email pattern.
\<close>

subsection \<open>The email pattern\<close>

text \<open>
  \<open>validate_email\<close> calls \<open>re.match\<close> with the pattern
  \<^verbatim>\<open>^[a-zA-Z0-9._%+-]+@[a-zA-Z0-9.-]+\.[a-zA-Z]{2,}$\<close>.
  The pattern is a sequence of items; \<open>One p\<close> is a single character of class \<open>p\<close>,
  \<open>Rep n p\<close> is \<open>p{n,}\<close> (so \<open>p+\<close> is \<open>Rep 1 p\<close>), and \<open>Dollar\<close> is \<open>$\<close>.
  \<open>re.match\<close> starts at the beginning of the string, so \<open>^\<close> adds nothing, and it
  accepts any remainder once the pattern is used up.
\<close>

datatype re_item = One "char \<Rightarrow> bool" | Rep nat "char \<Rightarrow> bool" | Dollar

definition newline :: char where
  "newline = CHR 0x0A"

text \<open>
  \<open>re_match\<close> says whether the backtracking search of \<open>re.match\<close> finds a match:
  a repetition first tries to take one more character and otherwise, when it has taken
  enough, hands over to the rest of the pattern. Python's \<open>$\<close> (without MULTILINE)
  matches at the end of the string and also just before a newline that ends the string.
\<close>

fun re_match :: "re_item list \<Rightarrow> string \<Rightarrow> bool" where
  "re_match [] s = True"
| "re_match (Dollar # r) s = ((s = [] \<or> s = [newline]) \<and> re_match r s)"
| "re_match (One p # r) [] = False"
| "re_match (One p # r) (x # xs) = (p x \<and> re_match r xs)"
| "re_match (Rep n p # r) [] = (n = 0 \<and> re_match r [])"
| "re_match (Rep n p # r) (x # xs) =
     ((p x \<and> re_match (Rep (n - 1) p # r) xs) \<or> (n = 0 \<and> re_match r (x # xs)))"

definition in_range :: "char \<Rightarrow> char \<Rightarrow> char \<Rightarrow> bool" where
  "in_range lo hi c = ((of_char lo :: nat) \<le> of_char c \<and> (of_char c :: nat) \<le> of_char hi)"

definition letter :: "char \<Rightarrow> bool" where
  "letter c = (in_range CHR ''a'' CHR ''z'' c \<or> in_range CHR ''A'' CHR ''Z'' c)"

definition alnum :: "char \<Rightarrow> bool" where
  "alnum c = (letter c \<or> in_range CHR ''0'' CHR ''9'' c)"

definition local_char :: "char \<Rightarrow> bool" where
  "local_char c = (alnum c \<or> c \<in> set ''._%+-'')"

definition domain_char :: "char \<Rightarrow> bool" where
  "domain_char c = (alnum c \<or> c \<in> set ''.-'')"

definition email_regex :: "re_item list" where
  "email_regex =
     [Rep 1 local_char, One (\<lambda>c. c = CHR ''@''), Rep 1 domain_char,
      One (\<lambda>c. c = CHR ''.''), Rep 2 letter, Dollar]"

definition validate_email :: "string \<Rightarrow> bool" where
  "validate_email email = re_match email_regex email"

text \<open>
  The shape the specification describes, in its own words: one or more characters of
  \<open>[a-zA-Z0-9._%+-]\<close>, an \<open>@\<close>, one or more of \<open>[a-zA-Z0-9.-]\<close>, a dot, at least two
  ASCII letters, and nothing after them.
\<close>

definition spec_email :: "string \<Rightarrow> bool" where
  "spec_email e =
     (\<exists>l d t. e = l @ ''@'' @ d @ ''.'' @ t \<and>
        l \<noteq> [] \<and> list_all local_char l \<and>
        d \<noteq> [] \<and> list_all domain_char d \<and>
        2 \<le> length t \<and> list_all letter t)"

subsection \<open>Rows, tables and the objects passed in\<close>

text \<open>
  \<open>class Student\<close> and \<open>class Instructor\<close> have the same three fields and no others,
  so one record stands for both; \<open>class Course\<close> has two.
\<close>

record Student =
  name :: string
  age :: int
  email :: string

type_synonym Instructor = Student

record Course =
  course_name :: string
  instructor_id :: int

text \<open>
  A row is the tuple \<open>fetchall\<close> returns: \<open>(id, name, age, email)\<close> for students and
  instructors, \<open>(course_id, course_name, instructor_id)\<close> for courses and
  \<open>(student_id, course_id)\<close> for enrollments, where \<open>None\<close> is SQL's \<open>NULL\<close>.
\<close>

type_synonym person_row = "int \<times> string \<times> int \<times> string"
type_synonym course_row = "int \<times> string \<times> int"

record database =
  students :: "person_row list"
  instructors :: "person_row list"
  courses :: "course_row list"
  student_courses :: "(int option \<times> int option) list"
  seq_students :: int
  seq_instructors :: int
  seq_courses :: int

text \<open>\<open>create_tables\<close> on a new file: four empty tables, no \<open>sqlite_sequence\<close> entry.\<close>

definition create_tables :: database where
  "create_tables =
     \<lparr>students = [], instructors = [], courses = [], student_courses = [],
      seq_students = 0, seq_instructors = 0, seq_courses = 0\<rparr>"

subsection \<open>What a call shows\<close>

datatype message =
    Invalid_email_format
  | Age_must_be_positive
  | Student_added_successfully
  | Instructor_added_successfully
  | Instructor_ID_does_not_exist int
  | Course_with_name_already_exists string
  | Course_added_successfully
  | An_error_occurred_while_adding_the_course
  | Student_registered_for_course_successfully
  | Registration_failed_already_registered

datatype outcome = show_error message | show_info message | no_dialog | raises string

fun failed :: "outcome \<Rightarrow> bool" where
  "failed (show_error m) = True"
| "failed (raises e) = True"
| "failed (show_info m) = False"
| "failed no_dialog = False"

subsection \<open>The SQL statements\<close>

text \<open>What \<open>cursor.execute\<close> raises in this program.\<close>

datatype sql_error = IntegrityError | OverflowError

text \<open>The values a Python \<open>int\<close> can have as an SQLite \<open>INTEGER\<close>.\<close>

definition in_int64 :: "int \<Rightarrow> bool" where
  "in_int64 i = (- (2 ^ 63) \<le> i \<and> i \<le> 2 ^ 63 - 1)"

text \<open>Binding a parameter that may be \<open>None\<close>: \<open>None\<close> is bound as \<open>NULL\<close>.\<close>

fun bindable :: "int option \<Rightarrow> bool" where
  "bindable None = True"
| "bindable (Some i) = in_int64 i"

definition next_rowid :: "int \<Rightarrow> int list \<Rightarrow> int" where
  "next_rowid seq ids = fold max ids seq + 1"

text \<open>\<^verbatim>\<open>INSERT INTO students (name, age, email) VALUES (?, ?, ?)\<close>\<close>

definition insert_into_students :: "string \<Rightarrow> int \<Rightarrow> string \<Rightarrow> database \<Rightarrow> sql_error + database" where
  "insert_into_students n a e db =
     (if \<not> in_int64 a then Inl OverflowError
      else
        let i = next_rowid (seq_students db) (map fst (students db))
        in Inr (db\<lparr>students := students db @ [(i, n, a, e)], seq_students := i\<rparr>))"

text \<open>\<^verbatim>\<open>INSERT INTO instructors (name, age, email) VALUES (?, ?, ?)\<close>\<close>

definition insert_into_instructors :: "string \<Rightarrow> int \<Rightarrow> string \<Rightarrow> database \<Rightarrow> sql_error + database" where
  "insert_into_instructors n a e db =
     (if \<not> in_int64 a then Inl OverflowError
      else
        let i = next_rowid (seq_instructors db) (map fst (instructors db))
        in Inr (db\<lparr>instructors := instructors db @ [(i, n, a, e)], seq_instructors := i\<rparr>))"

text \<open>\<^verbatim>\<open>INSERT INTO courses (course_name, instructor_id) VALUES (?, ?)\<close>\<close>

definition insert_into_courses :: "string \<Rightarrow> int \<Rightarrow> database \<Rightarrow> sql_error + database" where
  "insert_into_courses cn iid db =
     (let i = next_rowid (seq_courses db) (map fst (courses db))
      in Inr (db\<lparr>courses := courses db @ [(i, cn, iid)], seq_courses := i\<rparr>))"

text \<open>
  \<^verbatim>\<open>INSERT INTO student_courses (student_id, course_id) VALUES (?, ?)\<close>:
  the parameters are bound first; then the primary key \<open>(student_id, course_id)\<close>
  rejects a pair of two ids that is already there, and accepts any row with a \<open>NULL\<close>.
\<close>

definition insert_into_student_courses ::
  "int option \<Rightarrow> int option \<Rightarrow> database \<Rightarrow> sql_error + database" where
  "insert_into_student_courses sid cid db =
     (if \<not> (bindable sid \<and> bindable cid) then Inl OverflowError
      else if sid \<noteq> None \<and> cid \<noteq> None \<and> (sid, cid) \<in> set (student_courses db)
      then Inl IntegrityError
      else Inr (db\<lparr>student_courses := student_courses db @ [(sid, cid)]\<rparr>))"

subsection \<open>The methods of Database\<close>

definition add_student :: "Student \<Rightarrow> database \<Rightarrow> outcome \<times> database" where
  "add_student student db =
     (if \<not> validate_email (email student) then (show_error Invalid_email_format, db)
      else if age student \<le> 0 then (show_error Age_must_be_positive, db)
      else (case insert_into_students (name student) (age student) (email student) db of
              Inr db' \<Rightarrow> (show_info Student_added_successfully, db')
            | Inl IntegrityError \<Rightarrow> (raises ''AttributeError'', db)
            | Inl OverflowError \<Rightarrow> (raises ''OverflowError'', db)))"

definition add_instructor :: "Instructor \<Rightarrow> database \<Rightarrow> outcome \<times> database" where
  "add_instructor instructor db =
     (if \<not> validate_email (email instructor) then (show_error Invalid_email_format, db)
      else if age instructor \<le> 0 then (show_error Age_must_be_positive, db)
      else (case insert_into_instructors (name instructor) (age instructor) (email instructor) db of
              Inr db' \<Rightarrow> (show_info Instructor_added_successfully, db')
            | Inl IntegrityError \<Rightarrow> (raises ''AttributeError'', db)
            | Inl OverflowError \<Rightarrow> (raises ''OverflowError'', db)))"

text \<open>
  In the two handlers above the message of the \<open>except\<close> branch reads the attribute
  \<open>student_id\<close> (\<open>instructor_id\<close>), which the object does not have; the branch is never
  taken, since the \<open>INSERT\<close> cannot violate a constraint. \<open>except\<close> names
  \<open>sqlite3.IntegrityError\<close> only, so an \<open>OverflowError\<close> leaves the method uncaught.
\<close>

definition add_course :: "Course \<Rightarrow> database \<Rightarrow> outcome \<times> database" where
  "add_course course db =
     (let instructor = find (\<lambda>r. fst r = instructor_id course) (instructors db)
      in if instructor = None
         then (show_error (Instructor_ID_does_not_exist (instructor_id course)), db)
         else
           let existing_course = find (\<lambda>r. fst (snd r) = course_name course) (courses db)
           in if existing_course \<noteq> None
              then (show_error (Course_with_name_already_exists (course_name course)), db)
              else (case insert_into_courses (course_name course) (instructor_id course) db of
                      Inr db' \<Rightarrow> (show_info Course_added_successfully, db')
                    | Inl IntegrityError \<Rightarrow>
                        (show_error An_error_occurred_while_adding_the_course, db)
                    | Inl OverflowError \<Rightarrow> (raises ''OverflowError'', db)))"

definition get_students :: "database \<Rightarrow> person_row list" where
  "get_students db = students db"

definition get_instructors :: "database \<Rightarrow> person_row list" where
  "get_instructors db = instructors db"

definition get_courses :: "database \<Rightarrow> course_row list" where
  "get_courses db = courses db"

definition register_student_course ::
  "int option \<Rightarrow> int option \<Rightarrow> database \<Rightarrow> outcome \<times> database" where
  "register_student_course sid cid db =
     (case insert_into_student_courses sid cid db of
        Inr db' \<Rightarrow> (show_info Student_registered_for_course_successfully, db')
      | Inl IntegrityError \<Rightarrow> (show_error Registration_failed_already_registered, db)
      | Inl OverflowError \<Rightarrow> (raises ''OverflowError'', db))"

text \<open>\<^verbatim>\<open>UPDATE courses SET instructor_id = ? WHERE course_id = ?\<close>\<close>

definition update_course_instructor :: "int \<Rightarrow> int \<Rightarrow> database \<Rightarrow> outcome \<times> database" where
  "update_course_instructor cid iid db =
     (no_dialog,
      db\<lparr>courses := map (\<lambda>(i, cn, old). if i = cid then (i, cn, iid) else (i, cn, old)) (courses db)\<rparr>)"

text \<open>\<^verbatim>\<open>DELETE FROM students WHERE student_id = ?\<close>, and the same for the other two.\<close>

definition delete_student :: "int \<Rightarrow> database \<Rightarrow> outcome \<times> database" where
  "delete_student sid db =
     (no_dialog, db\<lparr>students := filter (\<lambda>r. fst r \<noteq> sid) (students db)\<rparr>)"

definition delete_instructor :: "int \<Rightarrow> database \<Rightarrow> outcome \<times> database" where
  "delete_instructor iid db =
     (no_dialog, db\<lparr>instructors := filter (\<lambda>r. fst r \<noteq> iid) (instructors db)\<rparr>)"

definition delete_course :: "int \<Rightarrow> database \<Rightarrow> outcome \<times> database" where
  "delete_course cid db =
     (no_dialog, db\<lparr>courses := filter (\<lambda>r. fst r \<noteq> cid) (courses db)\<rparr>)"

text \<open>\<^verbatim>\<open>UPDATE students SET name = ?, age = ?, email = ? WHERE student_id = ?\<close>\<close>

definition update_student :: "int \<Rightarrow> string \<Rightarrow> int \<Rightarrow> string \<Rightarrow> database \<Rightarrow> outcome \<times> database" where
  "update_student sid n a e db =
     (no_dialog,
      db\<lparr>students := map (\<lambda>r. if fst r = sid then (fst r, n, a, e) else r) (students db)\<rparr>)"

definition update_instructor :: "int \<Rightarrow> string \<Rightarrow> int \<Rightarrow> string \<Rightarrow> database \<Rightarrow> outcome \<times> database" where
  "update_instructor iid n a e db =
     (no_dialog,
      db\<lparr>instructors := map (\<lambda>r. if fst r = iid then (fst r, n, a, e) else r) (instructors db)\<rparr>)"

text \<open>\<^verbatim>\<open>UPDATE courses SET course_name = ?, instructor_id = ? WHERE course_id = ?\<close>\<close>

definition update_course :: "int \<Rightarrow> string \<Rightarrow> int \<Rightarrow> database \<Rightarrow> outcome \<times> database" where
  "update_course cid cn iid db =
     (no_dialog,
      db\<lparr>courses := map (\<lambda>r. if fst r = cid then (fst r, cn, iid) else r) (courses db)\<rparr>)"

subsection \<open>Sequences of calls\<close>

datatype operation =
    Add_student Student
  | Add_instructor Instructor
  | Add_course Course
  | Register_student_course "int option" "int option"
  | Update_course_instructor int int
  | Delete_student int
  | Delete_instructor int
  | Delete_course int
  | Update_student int string int string
  | Update_instructor int string int string
  | Update_course int string int

fun run :: "operation \<Rightarrow> database \<Rightarrow> outcome \<times> database" where
  "run (Add_student s) db = add_student s db"
| "run (Add_instructor i) db = add_instructor i db"
| "run (Add_course c) db = add_course c db"
| "run (Register_student_course sid cid) db = register_student_course sid cid db"
| "run (Update_course_instructor cid iid) db = update_course_instructor cid iid db"
| "run (Delete_student sid) db = delete_student sid db"
| "run (Delete_instructor iid) db = delete_instructor iid db"
| "run (Delete_course cid) db = delete_course cid db"
| "run (Update_student sid n a e) db = update_student sid n a e db"
| "run (Update_instructor iid n a e) db = update_instructor iid n a e db"
| "run (Update_course cid cn iid) db = update_course cid cn iid db"

fun run_all :: "operation list \<Rightarrow> database \<Rightarrow> database" where
  "run_all [] db = db"
| "run_all (op # ops) db = run_all ops (snd (run op db))"

subsection \<open>The invariants the specification names\<close>

definition course_names_unique :: "database \<Rightarrow> bool" where
  "course_names_unique db = distinct (map (\<lambda>r. fst (snd r)) (courses db))"

definition person_ok :: "person_row \<Rightarrow> bool" where
  "person_ok r = (case r of (i, n, a, e) \<Rightarrow> validate_email e \<and> 0 < a)"

definition people_valid :: "database \<Rightarrow> bool" where
  "people_valid db = (list_all person_ok (students db) \<and> list_all person_ok (instructors db))"

section \<open>The email pattern: what the matcher accepts\<close>

lemma re_match_Rep:
  "re_match (Rep n p # r) s \<longleftrightarrow>
     (\<exists>u v. s = u @ v \<and> n \<le> length u \<and> list_all p u \<and> re_match r v)"
proof (induction s arbitrary: n)
  case Nil
  then show ?case by auto
next
  case (Cons x xs)
  show ?case (is "?L = ?R")
  proof
    assume ?L
    then consider "p x" "re_match (Rep (n - 1) p # r) xs" | "n = 0" "re_match r (x # xs)"
      by auto
    then show ?R
    proof cases
      case 1
      then obtain u v where "xs = u @ v" "n - 1 \<le> length u" "list_all p u" "re_match r v"
        using Cons.IH by blast
      then have "x # xs = (x # u) @ v \<and> n \<le> length (x # u) \<and> list_all p (x # u) \<and> re_match r v"
        using 1 by auto
      then show ?thesis by blast
    next
      case 2
      then have "x # xs = [] @ (x # xs) \<and> n \<le> length ([]::string) \<and> list_all p [] \<and> re_match r (x # xs)"
        by simp
      then show ?thesis by blast
    qed
  next
    assume ?R
    then obtain u v where uv: "x # xs = u @ v" "n \<le> length u" "list_all p u" "re_match r v"
      by blast
    show ?L
    proof (cases u)
      case Nil
      then have "n = 0" "re_match r (x # xs)" using uv by auto
      then show ?thesis by simp
    next
      case (Cons y u')
      then have "xs = u' @ v" "n - 1 \<le> length u'" "list_all p u'" "re_match r v" "p x"
        using uv by auto
      then have "re_match (Rep (n - 1) p # r) xs" using Cons.IH by blast
      then show ?thesis using \<open>p x\<close> by simp
    qed
  qed
qed

lemma re_match_One:
  "re_match (One p # r) s \<longleftrightarrow> (\<exists>x v. s = x # v \<and> p x \<and> re_match r v)"
  by (cases s) auto

lemma re_match_Dollar: "re_match [Dollar] s \<longleftrightarrow> (s = [] \<or> s = [newline])"
  by simp

lemma validate_email_unfold:
  "validate_email e \<longleftrightarrow>
     (\<exists>l d t w. e = l @ ''@'' @ d @ ''.'' @ t @ w \<and>
        1 \<le> length l \<and> list_all local_char l \<and>
        1 \<le> length d \<and> list_all domain_char d \<and>
        2 \<le> length t \<and> list_all letter t \<and> (w = [] \<or> w = [newline]))"
  unfolding validate_email_def email_regex_def re_match_Rep re_match_One re_match_Dollar
  by simp blast

text \<open>
  The strings \<open>validate_email\<close> accepts are exactly those of the described shape and
  those of the described shape followed by one newline.
\<close>

lemma validate_email_iff:
  "validate_email e \<longleftrightarrow> spec_email e \<or> (\<exists>e'. e = e' @ [newline] \<and> spec_email e')"
proof
  assume "validate_email e"
  then obtain l d t w where *: "e = l @ ''@'' @ d @ ''.'' @ t @ w"
        "1 \<le> length l" "list_all local_char l"
        "1 \<le> length d" "list_all domain_char d"
        "2 \<le> length t" "list_all letter t" "w = [] \<or> w = [newline]"
    unfolding validate_email_unfold by blast
  have l: "l \<noteq> []" and d: "d \<noteq> []" using * by auto
  have sp: "spec_email (l @ ''@'' @ d @ ''.'' @ t)"
    unfolding spec_email_def using * l d by blast
  from *(8) show "spec_email e \<or> (\<exists>e'. e = e' @ [newline] \<and> spec_email e')"
  proof
    assume "w = []" then show ?thesis using sp * by simp
  next
    assume "w = [newline]"
    then have "e = (l @ ''@'' @ d @ ''.'' @ t) @ [newline]" using * by simp
    then show ?thesis using sp by blast
  qed
next
  assume "spec_email e \<or> (\<exists>e'. e = e' @ [newline] \<and> spec_email e')"
  then obtain e' w where e: "e = e' @ w" "spec_email e'" "w = [] \<or> w = [newline]"
    by auto
  then obtain l d t where *: "e' = l @ ''@'' @ d @ ''.'' @ t"
        "l \<noteq> []" "list_all local_char l" "d \<noteq> []" "list_all domain_char d"
        "2 \<le> length t" "list_all letter t"
    unfolding spec_email_def by blast
  have "1 \<le> length l" "1 \<le> length d" using * by (auto simp: Suc_le_eq)
  moreover have "e = l @ ''@'' @ d @ ''.'' @ t @ w" using e * by simp
  ultimately show "validate_email e"
    unfolding validate_email_unfold using * e(3) by blast
qed

lemma not_letter_newline: "\<not> letter newline"
  by (simp add: letter_def in_range_def newline_def)

lemma spec_email_last_letter: "spec_email e \<Longrightarrow> letter (last e)"
  unfolding spec_email_def by (auto simp: list_all_iff)

text \<open>
  C8. The claim: \<open>validate_email\<close> accepts a string exactly when it has the described
  shape, with nothing after the final letters. The code accepts \<open>a@b.co\<close> followed by a
  newline, which does not have that shape: \<open>$\<close> also matches before a final newline.
\<close>

theorem validate_email_accepts_trailing_newline:
  "validate_email (''a@b.co'' @ [newline]) \<and> \<not> spec_email (''a@b.co'' @ [newline])"
proof
  show "validate_email (''a@b.co'' @ [newline])" by code_simp
  show "\<not> spec_email (''a@b.co'' @ [newline])"
    using spec_email_last_letter [of "''a@b.co'' @ [newline]"] not_letter_newline by auto
qed

section \<open>Facts used throughout\<close>

lemmas char_classes = local_char_def domain_char_def alnum_def letter_def in_range_def newline_def

lemmas sql_defs = insert_into_students_def insert_into_instructors_def insert_into_courses_def
  insert_into_student_courses_def next_rowid_def in_int64_def

lemmas method_defs = add_student_def add_instructor_def add_course_def
  register_student_course_def update_course_instructor_def delete_student_def
  delete_instructor_def delete_course_def update_student_def update_instructor_def
  update_course_def

lemmas eval_defs = method_defs sql_defs create_tables_def validate_email_def email_regex_def
  char_classes

lemma fold_max_ge_start: "(s::int) \<le> fold max ids s"
proof (induction ids arbitrary: s)
  case Nil
  show ?case by simp
next
  case (Cons i ids)
  have "s \<le> max i s" by simp
  also have "\<dots> \<le> fold max ids (max i s)" by (rule Cons.IH)
  finally show ?case by simp
qed

lemma fold_max_ge_member: "i \<in> set ids \<Longrightarrow> (i::int) \<le> fold max ids s"
proof (induction ids arbitrary: s)
  case Nil
  then show ?case by simp
next
  case (Cons j ids)
  show ?case
  proof (cases "i = j")
    case True
    have "i \<le> max j s" using True by simp
    also have "\<dots> \<le> fold max ids (max j s)" by (rule fold_max_ge_start)
    finally show ?thesis by simp
  next
    case False
    then have "i \<in> set ids" using Cons.prems by simp
    then show ?thesis using Cons.IH by simp
  qed
qed

text \<open>An AUTOINCREMENT id is larger than every id in the table, so it is not one of them.\<close>

lemma next_rowid_fresh: "next_rowid s ids \<notin> set ids"
  using fold_max_ge_member [of "next_rowid s ids" ids s] by (auto simp: next_rowid_def)

lemma filter_fresh_id:
  assumes "i \<notin> fst ` set rows"
  shows "filter (\<lambda>r. fst r \<noteq> i) rows = rows"
  using assms by (induction rows) auto


lemma fetchone_course_None:
  "find (\<lambda>r. fst (snd r) = cn) (courses db) = None \<longleftrightarrow>
     cn \<notin> (\<lambda>r. fst (snd r)) ` set (courses db)"
  by (force simp: find_None_iff)

section \<open>Adding, reading and deleting a student\<close>

lemma add_student_inserts:
  assumes "validate_email (email s)" and "0 < age s" and "age s \<le> 2 ^ 63 - 1"
  shows "add_student s db =
      (show_info Student_added_successfully,
       db\<lparr>students := students db @
              [(next_rowid (seq_students db) (map fst (students db)), name s, age s, email s)],
          seq_students := next_rowid (seq_students db) (map fst (students db))\<rparr>)"
  using assms by (simp add: add_student_def insert_into_students_def Let_def in_int64_def)




text \<open>
  C9, as stated, fails: for every student with an accepted email and a positive age,
  \<open>add_student\<close> would extend the list of \<open>get_students\<close> by one row. The age \<open>2^63\<close>
  is positive and is not an SQLite \<open>INTEGER\<close>: \<open>execute\<close> raises \<open>OverflowError\<close>,
  which \<open>add_student\<close> does not catch, and no row is added.
\<close>

theorem add_student_age_out_of_range:
  "validate_email ''s@x.org'' \<and> (0::int) < 2 ^ 63 \<and>
   add_student \<lparr>name = ''S'', age = 2 ^ 63, email = ''s@x.org''\<rparr> create_tables =
     (raises ''OverflowError'', create_tables) \<and>
   get_students (snd (add_student \<lparr>name = ''S'', age = 2 ^ 63, email = ''s@x.org''\<rparr> create_tables)) =
     get_students create_tables"
  by (simp add: add_student_def insert_into_students_def in_int64_def validate_email_def
      email_regex_def char_classes)

text \<open>
  C9, amended. For every database state and every student whose email \<open>validate_email\<close>
  accepts and whose age is positive and at most \<open>2^63 - 1\<close>, the largest SQLite
  \<open>INTEGER\<close>: \<open>add_student\<close> reports success, \<open>get_students\<close> then returns the previous
  list followed by one row with the student's name, age and email under an id no previous
  row has, and after \<open>delete_student\<close> of that id the list is the previous one again, so
  the row is absent.
\<close>

theorem add_delete_student_roundtrip:
  assumes "validate_email (email s)" and "0 < age s" and "age s \<le> 2 ^ 63 - 1"
  shows "fst (add_student s db) = show_info Student_added_successfully \<and>
         next_rowid (seq_students db) (map fst (students db)) \<notin> fst ` set (get_students db) \<and>
         get_students (snd (add_student s db)) =
           get_students db @
             [(next_rowid (seq_students db) (map fst (students db)), name s, age s, email s)] \<and>
         get_students (snd (delete_student (next_rowid (seq_students db) (map fst (students db)))
                              (snd (add_student s db)))) = get_students db"
proof -
  let ?i = "next_rowid (seq_students db) (map fst (students db))"
  have fresh: "?i \<notin> fst ` set (students db)"
    using next_rowid_fresh [of "seq_students db" "map fst (students db)"] by simp
  show ?thesis
    using fresh
    by (simp add: add_student_inserts [OF assms] get_students_def delete_student_def
        filter_fresh_id)
qed

theorem add_delete_student_roundtrip_witness:
  "validate_email ''s@x.org'' \<and> (0::int) < 20 \<and> (20::int) \<le> 2 ^ 63 - 1 \<and>
   get_students (snd (add_student \<lparr>name = ''S'', age = 20, email = ''s@x.org''\<rparr> create_tables)) =
     [(1, ''S'', 20, ''s@x.org'')] \<and>
   get_students (snd (delete_student 1
     (snd (add_student \<lparr>name = ''S'', age = 20, email = ''s@x.org''\<rparr> create_tables)))) = []"
proof -
  have v: "validate_email (email \<lparr>name = ''S'', age = 20, email = ''s@x.org''\<rparr>)"
    by (simp add: validate_email_def email_regex_def char_classes)
  have a: "0 < age \<lparr>name = ''S'', age = 20, email = ''s@x.org''\<rparr>" by simp
  have b: "age \<lparr>name = ''S'', age = 20, email = ''s@x.org''\<rparr> \<le> 2 ^ 63 - 1" by simp
  show ?thesis
    using v add_delete_student_roundtrip [OF v a b, of create_tables]
    by (simp add: create_tables_def get_students_def next_rowid_def)
qed

text \<open>
  C10. \<open>delete_student\<close> changes the students table only: it removes exactly the rows
  with the given id and leaves instructors, courses and enrollments as they were; the
  enrollment rows of the deleted student are all still there.
\<close>

theorem delete_student_touches_students_only:
  "students (snd (delete_student sid db)) = filter (\<lambda>r. fst r \<noteq> sid) (students db) \<and>
   instructors (snd (delete_student sid db)) = instructors db \<and>
   courses (snd (delete_student sid db)) = courses db \<and>
   student_courses (snd (delete_student sid db)) = student_courses db \<and>
   filter (\<lambda>r. fst r = Some sid) (student_courses (snd (delete_student sid db))) =
     filter (\<lambda>r. fst r = Some sid) (student_courses db)"
  by (simp add: delete_student_def)

text \<open>A dangling enrollment: student 1 is gone, the pair \<open>(1, 5)\<close> stays.\<close>

theorem delete_student_touches_students_only_witness:
  "students (snd (delete_student 1 (run_all
      [Add_student \<lparr>name = ''S'', age = 20, email = ''s@x.org''\<rparr>,
       Register_student_course (Some 1) (Some 5)]
      create_tables))) = [] \<and>
   student_courses (snd (delete_student 1 (run_all
      [Add_student \<lparr>name = ''S'', age = 20, email = ''s@x.org''\<rparr>,
       Register_student_course (Some 1) (Some 5)]
      create_tables))) = [(Some 1, Some 5)]"
  using delete_student_touches_students_only [of 1 "run_all
      [Add_student \<lparr>name = ''S'', age = 20, email = ''s@x.org''\<rparr>,
       Register_student_course (Some 1) (Some 5)]
      create_tables"]
  by (simp add: eval_defs)

section \<open>Enrollment and course creation\<close>

text \<open>
  For two ids that are integers of SQLite, a pair that is present is rejected with the
  duplicate-registration error and nothing is written.
\<close>

lemma register_student_course_present_ids:
  assumes "(Some s, Some c) \<in> set (student_courses db)" and "in_int64 s" and "in_int64 c"
  shows "register_student_course (Some s) (Some c) db =
           (show_error Registration_failed_already_registered, db)"
  using assms by (simp add: register_student_course_def insert_into_student_courses_def)

lemma register_student_course_ids_distinct:
  assumes "distinct (filter (\<lambda>r. fst r \<noteq> None \<and> snd r \<noteq> None) (student_courses db))"
  shows "distinct (filter (\<lambda>r. fst r \<noteq> None \<and> snd r \<noteq> None)
           (student_courses (snd (register_student_course sid cid db))))"
  using assms by (auto simp: register_student_course_def insert_into_student_courses_def)

text \<open>
  C5. The claim: when the enrollments contain the pair \<open>(student_id, course_id)\<close>,
  \<open>register_student_course\<close> shows the duplicate-registration error and leaves the
  enrollments unchanged, so no pair occurs twice. The code: with \<open>None\<close> for both ids,
  which pyqt.py passes when the dropdowns are empty, the second registration of the pair
  shows the success dialog and the pair is in the table twice; the same happens for
  student 1 and \<open>None\<close> for the course.
\<close>

theorem register_student_course_repeats_null_pair:
  "(None, None) \<in> set (student_courses (run_all [Register_student_course None None] create_tables)) \<and>
   run (Register_student_course None None)
       (run_all [Register_student_course None None] create_tables) =
     (show_info Student_registered_for_course_successfully,
      create_tables\<lparr>student_courses := [(None, None), (None, None)]\<rparr>) \<and>
   (Some 1, None) \<in> set (student_courses (run_all
       [Add_student \<lparr>name = ''S'', age = 20, email = ''s@x.org''\<rparr>,
        Register_student_course (Some 1) None] create_tables)) \<and>
   fst (run (Register_student_course (Some 1) None) (run_all
       [Add_student \<lparr>name = ''S'', age = 20, email = ''s@x.org''\<rparr>,
        Register_student_course (Some 1) None] create_tables)) =
     show_info Student_registered_for_course_successfully \<and>
   student_courses (snd (run (Register_student_course (Some 1) None) (run_all
       [Add_student \<lparr>name = ''S'', age = 20, email = ''s@x.org''\<rparr>,
        Register_student_course (Some 1) None] create_tables))) =
     [(Some 1, None), (Some 1, None)]"
  by (simp add: eval_defs in_int64_def)



section \<open>Failures\<close>

text \<open>
  C7. Whenever a call of the database layer fails, that is, shows an error dialog or
  raises, the database it leaves is the one it found: no table and no id counter has
  changed. This covers the rejected email and the non-positive age of \<open>add_student\<close> and
  \<open>add_instructor\<close>, the two checks of \<open>add_course\<close> and the duplicate enrollment.
\<close>

theorem failed_operation_leaves_database:
  "failed (fst (run op db)) \<Longrightarrow> snd (run op db) = db"
  by (cases op)
     (auto simp: method_defs insert_into_students_def insert_into_instructors_def
        insert_into_courses_def insert_into_student_courses_def Let_def split: if_splits)

theorem failed_operation_leaves_database_witness:
  "failed (fst (run (Add_student \<lparr>name = ''S'', age = 20, email = ''nobody''\<rparr>) create_tables)) \<and>
   snd (run (Add_student \<lparr>name = ''S'', age = 20, email = ''nobody''\<rparr>) create_tables) = create_tables \<and>
   failed (fst (run (Add_student \<lparr>name = ''S'', age = 0, email = ''s@x.org''\<rparr>) create_tables)) \<and>
   snd (run (Add_student \<lparr>name = ''S'', age = 0, email = ''s@x.org''\<rparr>) create_tables) = create_tables \<and>
   failed (fst (run (Register_student_course (Some 1) (Some 5))
     (run_all [Register_student_course (Some 1) (Some 5)] create_tables))) \<and>
   snd (run (Register_student_course (Some 1) (Some 5))
     (run_all [Register_student_course (Some 1) (Some 5)] create_tables)) =
     run_all [Register_student_course (Some 1) (Some 5)] create_tables"
proof -
  have f1: "failed (fst (run (Add_student \<lparr>name = ''S'', age = 20, email = ''nobody''\<rparr>) create_tables))"
    by (simp add: eval_defs)
  have f2: "failed (fst (run (Add_student \<lparr>name = ''S'', age = 0, email = ''s@x.org''\<rparr>) create_tables))"
    by (simp add: eval_defs)
  have f3: "failed (fst (run (Register_student_course (Some 1) (Some 5))
     (run_all [Register_student_course (Some 1) (Some 5)] create_tables)))"
    by (simp add: eval_defs)
  show ?thesis
    using f1 f2 f3 failed_operation_leaves_database [OF f1] failed_operation_leaves_database [OF f2]
      failed_operation_leaves_database [OF f3]
    by simp
qed

section \<open>The update operations\<close>

text \<open>
  The three \<open>UPDATE\<close> methods and \<open>update_course_instructor\<close> send their statement
  without looking at the values. What the add and delete operations maintain is kept by
  every operation other than the updates.
\<close>

lemma course_names_unique_create_tables: "course_names_unique create_tables"
  by (simp add: course_names_unique_def create_tables_def)

lemma people_valid_create_tables: "people_valid create_tables"
  by (simp add: people_valid_def create_tables_def)

lemma update_course_instructor_names:
  "map (\<lambda>r. fst (snd r))
     (map (\<lambda>(i, cn, old). if i = cid then (i, cn, iid) else (i, cn, old)) rows) =
   map (\<lambda>r. fst (snd r)) rows"
  by (induction rows) auto

lemma course_names_unique_kept:
  assumes "course_names_unique db" and "\<forall>cid cn iid. op \<noteq> Update_course cid cn iid"
  shows "course_names_unique (snd (run op db))"
proof (cases op)
  case (Add_course c)
  show ?thesis
    using assms(1)
    unfolding Add_course run.simps add_course_def Let_def fetchone_course_None
      insert_into_courses_def course_names_unique_def
    by simp
next
  case (Delete_course cid)
  then show ?thesis
    using assms(1) by (simp add: delete_course_def course_names_unique_def distinct_map_filter)
next
  case (Update_course_instructor cid iid)
  then show ?thesis
    using assms(1)
    by (simp add: update_course_instructor_def course_names_unique_def
        update_course_instructor_names del: map_map)
next
  case (Update_course cid cn iid)
  then show ?thesis using assms(2) by blast
qed (use assms(1) in \<open>simp_all add: method_defs sql_defs Let_def course_names_unique_def\<close>)

lemma people_valid_kept:
  assumes "people_valid db"
    and "\<forall>i n a e. op \<noteq> Update_student i n a e \<and> op \<noteq> Update_instructor i n a e"
  shows "people_valid (snd (run op db))"
proof (cases op)
  case (Update_student i n a e)
  then show ?thesis using assms(2) by blast
next
  case (Update_instructor i n a e)
  then show ?thesis using assms(2) by blast
next
  case (Add_student s)
  then show ?thesis
    using assms(1)
    by (simp add: add_student_def insert_into_students_def Let_def people_valid_def person_ok_def)
next
  case (Add_instructor s)
  then show ?thesis
    using assms(1)
    by (simp add: add_instructor_def insert_into_instructors_def Let_def people_valid_def
        person_ok_def)
next
  case (Delete_student i)
  then show ?thesis
    using assms(1) by (simp add: delete_student_def people_valid_def list_all_iff)
next
  case (Delete_instructor i)
  then show ?thesis
    using assms(1) by (simp add: delete_instructor_def people_valid_def list_all_iff)
qed (use assms(1) in \<open>simp_all add: method_defs sql_defs Let_def people_valid_def\<close>)

lemma course_names_unique_run_all:
  assumes "course_names_unique db"
    and "\<forall>op \<in> set ops. \<forall>cid cn iid. op \<noteq> Update_course cid cn iid"
  shows "course_names_unique (run_all ops db)"
  using assms by (induction ops arbitrary: db) (simp_all add: course_names_unique_kept)

lemma people_valid_run_all:
  assumes "people_valid db"
    and "\<forall>op \<in> set ops. \<forall>i n a e. op \<noteq> Update_student i n a e \<and> op \<noteq> Update_instructor i n a e"
  shows "people_valid (run_all ops db)"
  using assms by (induction ops arbitrary: db) (simp_all add: people_valid_kept)

text \<open>
  C1. The claim: from the empty database, after any sequence of operations, no two course
  rows have the same name. The code: after adding an instructor and the courses \<open>A\<close> and
  \<open>B\<close>, \<open>update_course 2 A 1\<close> renames the second course, and two rows are named \<open>A\<close>.
\<close>

theorem update_course_duplicates_course_name:
  "courses (run_all
     [Add_instructor \<lparr>name = ''I'', age = 40, email = ''i@x.org''\<rparr>,
      Add_course \<lparr>course_name = ''A'', instructor_id = 1\<rparr>,
      Add_course \<lparr>course_name = ''B'', instructor_id = 1\<rparr>,
      Update_course 2 ''A'' 1] create_tables) = [(1, ''A'', 1), (2, ''A'', 1)] \<and>
   \<not> course_names_unique (run_all
     [Add_instructor \<lparr>name = ''I'', age = 40, email = ''i@x.org''\<rparr>,
      Add_course \<lparr>course_name = ''A'', instructor_id = 1\<rparr>,
      Add_course \<lparr>course_name = ''B'', instructor_id = 1\<rparr>,
      Update_course 2 ''A'' 1] create_tables)"
  by (simp add: eval_defs course_names_unique_def)

text \<open>
  C2. The claim: from the empty database, after any sequence of operations, every student
  and instructor row has an email \<open>validate_email\<close> accepts and a positive age. The code:
  after adding a valid student, \<open>update_student 1 S 0 nobody\<close> stores age \<open>0\<close> and an
  email without \<open>@\<close>.
\<close>

theorem update_student_stores_invalid_person:
  "students (run_all
     [Add_student \<lparr>name = ''S'', age = 20, email = ''s@x.org''\<rparr>,
      Update_student 1 ''S'' 0 ''nobody''] create_tables) = [(1, ''S'', 0, ''nobody'')] \<and>
   \<not> validate_email ''nobody'' \<and>
   \<not> people_valid (run_all
     [Add_student \<lparr>name = ''S'', age = 20, email = ''s@x.org''\<rparr>,
      Update_student 1 ''S'' 0 ''nobody''] create_tables)"
  by (simp add: eval_defs people_valid_def person_ok_def)

text \<open>
  C3. The claim: \<open>update_course_instructor\<close> refuses an \<open>instructor_id\<close> that no
  instructor row has and leaves the courses as they were. The code: with instructor 1 and
  course 1 in the database and no instructor 99, \<open>update_course_instructor 1 99\<close> shows
  nothing and course 1 now refers to instructor 99.
\<close>

theorem update_course_instructor_accepts_missing_instructor:
  "instructors (run_all
     [Add_instructor \<lparr>name = ''I'', age = 40, email = ''i@x.org''\<rparr>,
      Add_course \<lparr>course_name = ''A'', instructor_id = 1\<rparr>] create_tables) =
     [(1, ''I'', 40, ''i@x.org'')] \<and>
   courses (run_all
     [Add_instructor \<lparr>name = ''I'', age = 40, email = ''i@x.org''\<rparr>,
      Add_course \<lparr>course_name = ''A'', instructor_id = 1\<rparr>] create_tables) = [(1, ''A'', 1)] \<and>
   fst (update_course_instructor 1 99 (run_all
     [Add_instructor \<lparr>name = ''I'', age = 40, email = ''i@x.org''\<rparr>,
      Add_course \<lparr>course_name = ''A'', instructor_id = 1\<rparr>] create_tables)) = no_dialog \<and>
   courses (snd (update_course_instructor 1 99 (run_all
     [Add_instructor \<lparr>name = ''I'', age = 40, email = ''i@x.org''\<rparr>,
      Add_course \<lparr>course_name = ''A'', instructor_id = 1\<rparr>] create_tables))) = [(1, ''A'', 99)]"
  by (simp add: eval_defs)

section \<open>Which writes validate first\<close>






end
